theory Spec2Isabelle
  imports Complex_Main
begin

section \<open>WikiGraph embeddings service: data model\<close>

text \<open>
  The service of \<^verbatim>\<open>main.py\<close> wraps a sentence-transformers model behind six
  HTTP endpoints. A Python \<^verbatim>\<open>str\<close> is a sequence of code points and \<^verbatim>\<open>len\<close> counts
  them, so a text is a list of code points. Floating-point numbers are idealised as
  reals: rounding and NaN are not part of this model.
\<close>

type_synonym pystr = "nat list"

text \<open>Exceptions the handlers can meet, and what the client sees of them.\<close>

datatype exn = IndexError | ValueError | ModelError string

datatype http_error = HTTP422 | HTTP500 exn

text \<open>
  The libraries the module calls. \<^verbatim>\<open>model.encode\<close> of a single string returns a
  one-dimensional array and of a list a two-dimensional one; either call may raise.
  \<^verbatim>\<open>np.argsort\<close> is taken as a parameter: its default kind keeps no promise about
  the order of equal keys.
\<close>

record env =
  MODEL_NAME :: string
  encode_str :: "pystr \<Rightarrow> exn + real list"
  encode :: "pystr list \<Rightarrow> exn + real list list"
  get_sentence_embedding_dimension :: nat
  argsort :: "real list \<Rightarrow> nat list"

subsection \<open>Request and response schemas\<close>

text \<open>A JSON field of the request body: absent, an explicit null, or a value.\<close>

datatype 'a field = Missing | JsonNull | Given 'a

record EmbedRequest =
  req_text :: pystr

record EmbedBatchRequest =
  texts :: "pystr list"

record EmbedResponse =
  vector :: "real list"
  dimensions :: nat
  model :: string

record EmbedBatchResponse =
  vectors :: "real list list"
  count :: nat
  batch_dimensions :: nat
  batch_model :: string

record SimilarityRequest =
  text1 :: pystr
  text2 :: pystr

record SimilarityResponse =
  score :: real
  echo_text1 :: pystr
  echo_text2 :: pystr

record SimilarityBatchBody =
  body_query :: pystr
  body_candidates :: "pystr list"
  body_top_k :: "int field"

record SimilarityBatchRequest =
  query :: pystr
  candidates :: "pystr list"
  top_k :: "int option"

record result_item =
  item_text :: pystr
  item_score :: real
  item_index :: nat

record SimilarityBatchResponse =
  echo_query :: pystr
  results :: "result_item list"

record HealthResponse =
  status :: string
  health_model :: string
  model_dimensions :: nat

subsection \<open>Validation of the request bodies\<close>

text \<open>
  \<^verbatim>\<open>Field(..., min_length=1, max_length=10000)\<close> on a string and
  \<^verbatim>\<open>Field(..., min_items=1, max_items=100)\<close> on a list bound the length of the field
  itself; the items of a \<^verbatim>\<open>List[str]\<close> carry no constraint.
\<close>

definition str_field_ok :: "pystr \<Rightarrow> bool" where
  "str_field_ok s = (1 \<le> length s \<and> length s \<le> 10000)"

definition validate_EmbedRequest :: "EmbedRequest \<Rightarrow> bool" where
  "validate_EmbedRequest r = str_field_ok (req_text r)"

definition validate_EmbedBatchRequest :: "EmbedBatchRequest \<Rightarrow> bool" where
  "validate_EmbedBatchRequest r = (1 \<le> length (texts r) \<and> length (texts r) \<le> 100)"

definition validate_SimilarityRequest :: "SimilarityRequest \<Rightarrow> bool" where
  "validate_SimilarityRequest r = (str_field_ok (text1 r) \<and> str_field_ok (text2 r))"

text \<open>
  \<^verbatim>\<open>top_k: Optional[int] = Field(default=10, ge=1, le=100)\<close>: an absent field takes
  the default, an explicit null is a valid \<^verbatim>\<open>Optional\<close> value and the bounds apply
  to integers only.
\<close>

fun parse_top_k :: "int field \<Rightarrow> http_error + int option" where
  "parse_top_k Missing = Inr (Some 10)"
| "parse_top_k JsonNull = Inr None"
| "parse_top_k (Given k) = (if 1 \<le> k \<and> k \<le> 100 then Inr (Some k) else Inl HTTP422)"

definition parse_SimilarityBatchRequest ::
  "SimilarityBatchBody \<Rightarrow> http_error + SimilarityBatchRequest" where
  "parse_SimilarityBatchRequest b =
     (if str_field_ok (body_query b)
         \<and> 1 \<le> length (body_candidates b) \<and> length (body_candidates b) \<le> 1000
      then (case parse_top_k (body_top_k b) of
              Inl e \<Rightarrow> Inl e
            | Inr k \<Rightarrow> Inr \<lparr>query = body_query b, candidates = body_candidates b, top_k = k\<rparr>)
      else Inl HTTP422)"

section \<open>The handlers\<close>

definition health_check :: "env \<Rightarrow> HealthResponse" where
  "health_check e =
     \<lparr>status = ''ok'', health_model = MODEL_NAME e,
      model_dimensions = get_sentence_embedding_dimension e\<rparr>"

definition embed_text :: "env \<Rightarrow> EmbedRequest \<Rightarrow> http_error + EmbedResponse" where
  "embed_text e request =
     (case encode_str e (req_text request) of
        Inl x \<Rightarrow> Inl (HTTP500 x)
      | Inr vec \<Rightarrow> Inr \<lparr>vector = vec, dimensions = length vec, model = MODEL_NAME e\<rparr>)"

definition embed_batch :: "env \<Rightarrow> EmbedBatchRequest \<Rightarrow> http_error + EmbedBatchResponse" where
  "embed_batch e request =
     (case encode e (texts request) of
        Inl x \<Rightarrow> Inl (HTTP500 x)
      | Inr vecs \<Rightarrow>
          Inr \<lparr>vectors = vecs, count = length vecs,
               batch_dimensions = (case vecs of [] \<Rightarrow> 0 | v # _ \<Rightarrow> length v),
               batch_model = MODEL_NAME e\<rparr>)"

subsection \<open>Cosine similarity\<close>

text \<open>
  Modelled from the spec: \<^verbatim>\<open>sklearn.metrics.pairwise.cosine_similarity\<close> is a library
  function whose code is not part of the repository. The spec defines the cosine
  similarity of two vectors as \<open>dot(a,b)/(|a||b|)\<close>, with the value 0 when either
  vector has norm zero. The library takes two matrices and returns the matrix of the
  similarities of their rows; it raises \<^verbatim>\<open>ValueError\<close> when the rows do not all have
  the same number of columns.
\<close>

definition dot :: "real list \<Rightarrow> real list \<Rightarrow> real" where
  "dot a b = sum_list (map2 (*) a b)"

definition vnorm :: "real list \<Rightarrow> real" where
  "vnorm a = sqrt (dot a a)"

definition cosine :: "real list \<Rightarrow> real list \<Rightarrow> real" where
  "cosine a b =
     (if vnorm a = 0 \<or> vnorm b = 0 then 0 else dot a b / (vnorm a * vnorm b))"

text \<open>
  Modelled from the spec: the library function on two matrices, row against row, with
  the spec's formula for each pair of rows.
\<close>

definition cosine_similarity :: "real list list \<Rightarrow> real list list \<Rightarrow> exn + real list list" where
  "cosine_similarity X Y =
     (case X of
        [] \<Rightarrow> Inl ValueError
      | x0 # _ \<Rightarrow>
          if list_all (\<lambda>r. length r = length x0) (X @ Y)
          then Inr (map (\<lambda>x. map (cosine x) Y) X)
          else Inl ValueError)"

subsection \<open>Pairwise similarity\<close>

text \<open>
  \<^verbatim>\<open>embeddings[0]\<close> and \<^verbatim>\<open>embeddings[1]\<close> raise \<^verbatim>\<open>IndexError\<close> on an array with
  fewer than two rows; the result of \<^verbatim>\<open>cosine_similarity\<close> on two one-row matrices
  is a one-by-one matrix.
\<close>

definition calculate_similarity ::
  "env \<Rightarrow> SimilarityRequest \<Rightarrow> http_error + SimilarityResponse" where
  "calculate_similarity e request =
     (case encode e [text1 request, text2 request] of
        Inl x \<Rightarrow> Inl (HTTP500 x)
      | Inr embeddings \<Rightarrow>
          (case embeddings of
             e0 # e1 # _ \<Rightarrow>
               (case cosine_similarity [e0] [e1] of
                  Inl x \<Rightarrow> Inl (HTTP500 x)
                | Inr K \<Rightarrow>
                    (case K of
                       (s # _) # _ \<Rightarrow>
                         Inr \<lparr>score = s, echo_text1 = text1 request, echo_text2 = text2 request\<rparr>
                     | _ \<Rightarrow> Inl (HTTP500 IndexError)))
           | _ \<Rightarrow> Inl (HTTP500 IndexError)))"

subsection \<open>Ranking\<close>

text \<open>
  The slice \<^verbatim>\<open>a[:k]\<close> of Python and numpy: everything for \<^verbatim>\<open>None\<close>, the first
  \<open>k\<close> elements for \<open>k \<ge> 0\<close>, all but the last \<open>-k\<close> for a negative \<open>k\<close>.
\<close>

fun py_slice_to :: "'a list \<Rightarrow> int option \<Rightarrow> 'a list" where
  "py_slice_to xs None = xs"
| "py_slice_to xs (Some k) =
     (if 0 \<le> k then take (nat k) xs else take (nat (int (length xs) + k)) xs)"

text \<open>
  The list comprehension that builds the results: \<^verbatim>\<open>request.candidates[i]\<close> and
  \<^verbatim>\<open>similarities[i]\<close> raise \<^verbatim>\<open>IndexError\<close> out of range.
\<close>

fun result_items :: "pystr list \<Rightarrow> real list \<Rightarrow> nat list \<Rightarrow> exn + result_item list" where
  "result_items cands sims [] = Inr []"
| "result_items cands sims (i # is) =
     (if i < length cands \<and> i < length sims
      then (case result_items cands sims is of
              Inl x \<Rightarrow> Inl x
            | Inr rs \<Rightarrow>
                Inr (\<lparr>item_text = cands ! i, item_score = sims ! i, item_index = i\<rparr> # rs))
      else Inl IndexError)"

definition find_similar ::
  "env \<Rightarrow> SimilarityBatchRequest \<Rightarrow> http_error + SimilarityBatchResponse" where
  "find_similar e request =
     (case encode e [query request] of
        Inl x \<Rightarrow> Inl (HTTP500 x)
      | Inr qs \<Rightarrow>
          (case qs of
             [] \<Rightarrow> Inl (HTTP500 IndexError)
           | query_embedding # _ \<Rightarrow>
               (case encode e (candidates request) of
                  Inl x \<Rightarrow> Inl (HTTP500 x)
                | Inr candidate_embeddings \<Rightarrow>
                    (case cosine_similarity [query_embedding] candidate_embeddings of
                       Inl x \<Rightarrow> Inl (HTTP500 x)
                     | Inr K \<Rightarrow>
                         (case K of
                            [] \<Rightarrow> Inl (HTTP500 IndexError)
                          | similarities # _ \<Rightarrow>
                              (let indices =
                                     py_slice_to (rev (argsort e similarities)) (top_k request)
                               in case result_items (candidates request) similarities indices of
                                    Inl x \<Rightarrow> Inl (HTTP500 x)
                                  | Inr rs \<Rightarrow>
                                      Inr \<lparr>echo_query = query request, results = rs\<rparr>))))))"

subsection \<open>The endpoints: validation, then the handler\<close>

definition post_embed :: "env \<Rightarrow> EmbedRequest \<Rightarrow> http_error + EmbedResponse" where
  "post_embed e r = (if validate_EmbedRequest r then embed_text e r else Inl HTTP422)"

definition post_embed_batch :: "env \<Rightarrow> EmbedBatchRequest \<Rightarrow> http_error + EmbedBatchResponse" where
  "post_embed_batch e r = (if validate_EmbedBatchRequest r then embed_batch e r else Inl HTTP422)"

definition post_similarity :: "env \<Rightarrow> SimilarityRequest \<Rightarrow> http_error + SimilarityResponse" where
  "post_similarity e r =
     (if validate_SimilarityRequest r then calculate_similarity e r else Inl HTTP422)"

definition post_similarity_batch ::
  "env \<Rightarrow> SimilarityBatchBody \<Rightarrow> http_error + SimilarityBatchResponse" where
  "post_similarity_batch e b =
     (case parse_SimilarityBatchRequest b of
        Inl x \<Rightarrow> Inl x
      | Inr r \<Rightarrow> find_similar e r)"

subsection \<open>What the libraries are assumed to deliver\<close>

text \<open>
  \<open>idx\<close> is an argsort of \<open>xs\<close>: a permutation of the positions of \<open>xs\<close> along
  which the values do not decrease. Nothing is said about equal values.
\<close>

definition is_argsort_of :: "real list \<Rightarrow> nat list \<Rightarrow> bool" where
  "is_argsort_of xs idx =
     (length idx = length xs \<and> distinct idx \<and> list_all (\<lambda>i. i < length xs) idx
      \<and> sorted (map (\<lambda>i. xs ! i) idx))"

text \<open>
  An example of an admissible argsort, for concrete runs: the positions sorted by value
  with an insertion sort. It stands for no library: the default kind of \<^verbatim>\<open>np.argsort\<close>
  may order equal values differently.
\<close>

definition argsort_stable :: "real list \<Rightarrow> nat list" where
  "argsort_stable xs = sort_key (\<lambda>i. xs ! i) [0..<length xs]"

text \<open>
  A model for concrete runs: a text is embedded by its first code point, as the zero
  vector for code point 0, as the first unit vector for any other even code point
  and as the second unit vector for an odd one.
\<close>

definition toy_embedding :: "pystr \<Rightarrow> real list" where
  "toy_embedding s =
     (case s of
        [] \<Rightarrow> [0, 0]
      | c # _ \<Rightarrow> if c = 0 then [0, 0] else if even c then [1, 0] else [0, 1])"

definition toy_env :: env where
  "toy_env =
     \<lparr>MODEL_NAME = ''all-MiniLM-L6-v2'',
      encode_str = (\<lambda>s. Inr (toy_embedding s)),
      encode = (\<lambda>ss. Inr (map toy_embedding ss)),
      get_sentence_embedding_dimension = 2,
      argsort = argsort_stable\<rparr>"

subsection \<open>Orders of equal scores\<close>

text \<open>
  Ties broken by original index ascending, in the spec's words: of two results with
  equal scores the earlier one has the smaller index.
\<close>

definition ties_by_index_ascending :: "result_item list \<Rightarrow> bool" where
  "ties_by_index_ascending rs =
     sorted_wrt (\<lambda>x y. item_score x = item_score y \<longrightarrow> item_index x < item_index y) rs"

text \<open>
  The environment of the run on two equal candidates. \<^verbatim>\<open>np.argsort\<close> of the two equal
  scores \<open>[1, 1]\<close> returns \<open>[0, 1]\<close>: nothing is moved. The argsort of this
  environment returns the positions in their order, which is an argsort of every
  array of equal values; the run calls it on \<open>[1, 1]\<close> only.
\<close>

definition in_place_env :: env where
  "in_place_env = toy_env \<lparr>argsort := \<lambda>xs. [0..<length xs]\<rparr>"

text \<open>The same model, except that encoding a list returns an array without rows.\<close>

definition silent_env :: env where
  "silent_env = toy_env \<lparr>encode := \<lambda>ss. Inr []\<rparr>"

section \<open>Validation of the single-text field\<close>

lemma embed_text_not_422: "embed_text e r \<noteq> Inl HTTP422"
  by (simp add: embed_text_def split: sum.split)

text \<open>
  C7. \<^verbatim>\<open>/embed\<close> accepts every text of exactly 10000 characters: the request reaches
  the handler, whose answer is the endpoint's and is never the validation error. Every
  text of 10001 characters and the empty text are answered with the validation error
  422 whatever the model is, so the model has no part in the answer.
\<close>

theorem embed_length_boundary:
  "(length s = 10000 \<longrightarrow>
      post_embed e \<lparr>req_text = s\<rparr> = embed_text e \<lparr>req_text = s\<rparr>
      \<and> post_embed e \<lparr>req_text = s\<rparr> \<noteq> Inl HTTP422)
   \<and> (length s = 10001 \<longrightarrow> post_embed e \<lparr>req_text = s\<rparr> = Inl HTTP422)
   \<and> post_embed e \<lparr>req_text = []\<rparr> = Inl HTTP422"
  using embed_text_not_422 [of e "\<lparr>req_text = s\<rparr>"]
  by (simp add: post_embed_def validate_EmbedRequest_def str_field_ok_def)

theorem embed_length_boundary_witness:
  "post_embed toy_env \<lparr>req_text = replicate 10000 7\<rparr>
     = Inr \<lparr>vector = [0, 1], dimensions = 2, model = ''all-MiniLM-L6-v2''\<rparr>
   \<and> post_embed toy_env \<lparr>req_text = replicate 10001 7\<rparr> = Inl HTTP422
   \<and> post_embed toy_env \<lparr>req_text = []\<rparr> = Inl HTTP422"
proof -
  have "replicate (Suc 9999) (7::nat) = 7 # replicate 9999 7"
    by (rule replicate_Suc)
  then have "toy_embedding (replicate 10000 7) = [0, 1]"
    by (simp add: toy_embedding_def)
  then have run: "embed_text toy_env \<lparr>req_text = replicate 10000 7\<rparr>
     = Inr \<lparr>vector = [0, 1], dimensions = 2, model = ''all-MiniLM-L6-v2''\<rparr>"
    by (simp add: embed_text_def toy_env_def)
  have l0: "length (replicate 10000 (7::nat)) = 10000"
    and l1: "length (replicate 10001 (7::nat)) = 10001"
    by simp_all
  show ?thesis
    using embed_length_boundary [of "replicate 10000 7" toy_env]
      embed_length_boundary [of "replicate 10001 7" toy_env] l0 l1 run
    by simp
qed

section \<open>Facts about the ranking pipeline\<close>

lemma result_items_ok:
  "\<forall>i\<in>set is. i < length cands \<and> i < length sims \<Longrightarrow>
   result_items cands sims is =
     Inr (map (\<lambda>i. \<lparr>item_text = cands ! i, item_score = sims ! i, item_index = i\<rparr>) is)"
  by (induction "is") auto

lemma is_argsort_of_set:
  assumes "is_argsort_of xs idx"
  shows "set idx = {0..<length xs}"
proof -
  from assms have d: "distinct idx" and l: "length idx = length xs"
    and b: "set idx \<subseteq> {0..<length xs}"
    by (auto simp: is_argsort_of_def list_all_iff)
  have "card (set idx) = card {0..<length xs}"
    using d l by (simp add: distinct_card)
  with b show ?thesis
    by (simp add: card_subset_eq)
qed

lemma set_py_slice_to: "set (py_slice_to xs k) \<subseteq> set xs"
  by (cases k) (auto dest: in_set_takeD)

lemma argsort_stable_is_argsort: "is_argsort_of xs (argsort_stable xs)"
  by (simp add: is_argsort_of_def argsort_stable_def list_all_iff sorted_sort_key)

lemma cosine_similarity_row:
  "list_all (\<lambda>v. length v = length q) cvs \<Longrightarrow>
   cosine_similarity [q] cvs = Inr [map (cosine q) cvs]"
  by (simp add: cosine_similarity_def)

lemma find_similar_success:
  assumes q: "encode e [query r] = Inr (q # qs)"
    and c: "encode e (candidates r) = Inr cvs"
    and n: "length cvs = length (candidates r)"
    and shape: "list_all (\<lambda>v. length v = length q) cvs"
    and a: "is_argsort_of (map (cosine q) cvs) (argsort e (map (cosine q) cvs))"
  shows "find_similar e r =
     Inr \<lparr>echo_query = query r,
          results = map (\<lambda>i. \<lparr>item_text = candidates r ! i,
                               item_score = map (cosine q) cvs ! i, item_index = i\<rparr>)
                      (py_slice_to (rev (argsort e (map (cosine q) cvs))) (top_k r))\<rparr>"
proof -
  let ?sims = "map (cosine q) cvs"
  let ?idx = "py_slice_to (rev (argsort e ?sims)) (top_k r)"
  have "set ?idx \<subseteq> {0..<length ?sims}"
    using set_py_slice_to [of "rev (argsort e ?sims)" "top_k r"] is_argsort_of_set [OF a]
    by simp
  then have "\<forall>i\<in>set ?idx. i < length (candidates r) \<and> i < length ?sims"
    using n by auto
  then have "result_items (candidates r) ?sims ?idx =
     Inr (map (\<lambda>i. \<lparr>item_text = candidates r ! i, item_score = ?sims ! i, item_index = i\<rparr>) ?idx)"
    by (rule result_items_ok)
  then show ?thesis
    by (simp add: find_similar_def q c cosine_similarity_row [OF shape])
qed

lemma toy_cosines:
  "cosine [1, 0] [1, 0] = 1" "cosine [1, 0] [0, 1] = 0" "cosine [0, 1] [1, 0] = 0"
  "cosine [0, 1] [0, 1] = 1" "cosine [0, 0] v = 0" "cosine v [0, 0] = 0"
  by (simp_all add: cosine_def vnorm_def dot_def)

lemma toy_encode: "encode toy_env ss = Inr (map toy_embedding ss)"
  by (simp add: toy_env_def)

lemma toy_argsort: "argsort toy_env = argsort_stable"
  by (simp add: toy_env_def)

lemma toy_shape: "list_all (\<lambda>v. length v = 2) (map toy_embedding ss)"
  by (simp add: list_all_iff toy_embedding_def split: list.split)

lemma in_place_run_two_equal:
  "post_similarity_batch in_place_env
     \<lparr>body_query = [98], body_candidates = [[98], [98]], body_top_k = Missing\<rparr>
   = Inr \<lparr>echo_query = [98],
          results = [\<lparr>item_text = [98], item_score = 1, item_index = 1\<rparr>,
                     \<lparr>item_text = [98], item_score = 1, item_index = 0\<rparr>]\<rparr>"
  by (simp add: post_similarity_batch_def parse_SimilarityBatchRequest_def str_field_ok_def
      find_similar_def in_place_env_def toy_env_def toy_embedding_def cosine_similarity_def
      toy_cosines upt_conv_Cons)

section \<open>Ranking\<close>

text \<open>
  C2. A ranking request that passed validation with an integer \<open>top_k = k\<close>, on a
  model that returns one row per candidate (all of the query's dimension) and with
  an argsort that is a sorting permutation, is answered with a results list of length
  \<open>min(k, len(candidates))\<close> whose scores do not increase, whose indices lie in
  \<open>[0, len(candidates))\<close> and are pairwise different; when \<open>k\<close> is at least the
  number of candidates every candidate is returned.
\<close>

theorem ranking_shape:
  assumes p: "parse_SimilarityBatchRequest b = Inr r"
    and k: "top_k r = Some k"
    and q: "encode e [query r] = Inr (q # qs)"
    and c: "encode e (candidates r) = Inr cvs"
    and n: "length cvs = length (candidates r)"
    and shape: "list_all (\<lambda>v. length v = length q) cvs"
    and a: "is_argsort_of (map (cosine q) cvs) (argsort e (map (cosine q) cvs))"
  shows "\<exists>rs. post_similarity_batch e b = Inr \<lparr>echo_query = query r, results = rs\<rparr>
    \<and> length rs = min (nat k) (length (candidates r))
    \<and> sorted_wrt (\<lambda>x y. item_score x \<ge> item_score y) rs
    \<and> list_all (\<lambda>x. item_index x < length (candidates r)) rs
    \<and> distinct (map item_index rs)
    \<and> (length (candidates r) \<le> nat k \<longrightarrow>
         set (map item_index rs) = {0..<length (candidates r)})"
proof -
  let ?sims = "map (cosine q) cvs"
  let ?srt = "argsort e ?sims"
  let ?mk = "\<lambda>i. \<lparr>item_text = candidates r ! i, item_score = ?sims ! i, item_index = i\<rparr>"
  let ?rs = "map ?mk (py_slice_to (rev ?srt) (top_k r))"
  have kpos: "0 \<le> k"
    using p k by (cases "body_top_k b")
      (auto simp: parse_SimilarityBatchRequest_def split: if_splits sum.splits)
  then have sl: "py_slice_to (rev ?srt) (top_k r) = take (nat k) (rev ?srt)"
    by (simp add: k)
  have len: "length ?srt = length (candidates r)"
    using a n by (simp add: is_argsort_of_def)
  have dist: "distinct ?srt"
    using a by (simp add: is_argsort_of_def)
  have st: "set ?srt = {0..<length (candidates r)}"
    using is_argsort_of_set [OF a] n by simp
  have srt: "sorted (map (\<lambda>i. ?sims ! i) ?srt)"
    using a by (simp add: is_argsort_of_def)
  have idx: "map item_index ?rs = take (nat k) (rev ?srt)"
    by (simp add: sl comp_def)
  have 1: "post_similarity_batch e b = Inr \<lparr>echo_query = query r, results = ?rs\<rparr>"
    by (simp add: post_similarity_batch_def p find_similar_success [OF q c n shape a])
  have 2: "length ?rs = min (nat k) (length (candidates r))"
    by (simp add: sl len)
  have "sorted_wrt (\<lambda>i j. ?sims ! i \<ge> ?sims ! j) (rev ?srt)"
    using srt by (simp add: sorted_wrt_rev sorted_map)
  then have "sorted_wrt (\<lambda>i j. ?sims ! i \<ge> ?sims ! j) (take (nat k) (rev ?srt))"
    by (rule sorted_wrt_take)
  then have 3: "sorted_wrt (\<lambda>x y. item_score x \<ge> item_score y) ?rs"
    by (simp add: sl sorted_wrt_map)
  have 4: "list_all (\<lambda>x. item_index x < length (candidates r)) ?rs"
    using st by (auto simp: sl list_all_iff dest: in_set_takeD)
  have 5: "distinct (map item_index ?rs)"
    unfolding idx using dist by simp
  have 6: "length (candidates r) \<le> nat k \<longrightarrow>
         set (map item_index ?rs) = {0..<length (candidates r)}"
    unfolding idx using st len by simp
  from 1 2 3 4 5 6 show ?thesis by blast
qed

theorem ranking_shape_witness:
  "\<exists>rs. post_similarity_batch toy_env
       \<lparr>body_query = [98], body_candidates = [[97], [98], [100]], body_top_k = Given 2\<rparr>
     = Inr \<lparr>echo_query = [98], results = rs\<rparr>
   \<and> length rs = 2
   \<and> sorted_wrt (\<lambda>x y. item_score x \<ge> item_score y) rs
   \<and> list_all (\<lambda>x. item_index x < 3) rs
   \<and> distinct (map item_index rs)"
proof -
  let ?b = "\<lparr>body_query = [98], body_candidates = [[97], [98], [100]], body_top_k = Given 2\<rparr>"
  let ?r = "\<lparr>query = [98], candidates = [[97], [98], [100]], top_k = Some 2\<rparr>"
  let ?cvs = "map toy_embedding [[97], [98], [100]]"
  have p: "parse_SimilarityBatchRequest ?b = Inr ?r"
    by (simp add: parse_SimilarityBatchRequest_def str_field_ok_def)
  have k: "top_k ?r = Some 2"
    by simp
  have q: "encode toy_env [query ?r] = Inr ([1, 0] # [])"
    by (simp add: toy_encode toy_embedding_def)
  have c: "encode toy_env (candidates ?r) = Inr ?cvs"
    by (simp add: toy_encode)
  have n: "length ?cvs = length (candidates ?r)"
    by simp
  have shape: "list_all (\<lambda>v. length v = length [1, 0::real]) ?cvs"
    by (simp add: toy_embedding_def)
  have a: "is_argsort_of (map (cosine [1, 0]) ?cvs) (argsort toy_env (map (cosine [1, 0]) ?cvs))"
    by (simp add: toy_argsort argsort_stable_is_argsort)
  show ?thesis
    using ranking_shape [OF p k q c n shape a] by (simp add: eval_nat_numeral)
qed

text \<open>
  C1, as the code has it. The returned indices are the ascending argsort of the
  similarities, reversed and cut by \<^verbatim>\<open>top_k\<close>; every result carries the score and the
  text of its index. Candidates with equal scores therefore come in the reverse of the
  order the argsort gave them, whatever that order is.
\<close>

theorem ranking_order_reversed_argsort:
  assumes p: "parse_SimilarityBatchRequest b = Inr r"
    and q: "encode e [query r] = Inr (q # qs)"
    and c: "encode e (candidates r) = Inr cvs"
    and n: "length cvs = length (candidates r)"
    and shape: "list_all (\<lambda>v. length v = length q) cvs"
    and a: "is_argsort_of (map (cosine q) cvs) (argsort e (map (cosine q) cvs))"
  shows "\<exists>rs. post_similarity_batch e b = Inr \<lparr>echo_query = query r, results = rs\<rparr>
    \<and> map item_index rs = py_slice_to (rev (argsort e (map (cosine q) cvs))) (top_k r)
    \<and> (\<forall>x\<in>set rs. item_score x = cosine q (cvs ! item_index x)
                    \<and> item_text x = candidates r ! item_index x)"
proof -
  let ?sims = "map (cosine q) cvs"
  let ?idx = "py_slice_to (rev (argsort e ?sims)) (top_k r)"
  let ?mk = "\<lambda>i. \<lparr>item_text = candidates r ! i, item_score = ?sims ! i, item_index = i\<rparr>"
  have 1: "post_similarity_batch e b = Inr \<lparr>echo_query = query r, results = map ?mk ?idx\<rparr>"
    using find_similar_success [OF q c n shape a] by (simp add: post_similarity_batch_def p)
  have 2: "map item_index (map ?mk ?idx) = ?idx"
    by (simp add: comp_def)
  have "set ?idx \<subseteq> {0..<length cvs}"
    using set_py_slice_to [of "rev (argsort e ?sims)" "top_k r"] is_argsort_of_set [OF a]
    by simp
  then have 3: "\<forall>x\<in>set (map ?mk ?idx). item_score x = cosine q (cvs ! item_index x)
                    \<and> item_text x = candidates r ! item_index x"
    by auto
  from 1 2 3 show ?thesis by blast
qed

theorem ranking_order_reversed_argsort_witness:
  "\<exists>rs. post_similarity_batch toy_env
       \<lparr>body_query = [98], body_candidates = [[98], [97], [98]], body_top_k = Given 2\<rparr>
     = Inr \<lparr>echo_query = [98], results = rs\<rparr>
   \<and> map item_index rs = [2, 0]"
proof -
  let ?b = "\<lparr>body_query = [98], body_candidates = [[98], [97], [98]], body_top_k = Given 2\<rparr>"
  let ?r = "\<lparr>query = [98], candidates = [[98], [97], [98]], top_k = Some 2\<rparr>"
  let ?cvs = "map toy_embedding [[98], [97], [98]]"
  have p: "parse_SimilarityBatchRequest ?b = Inr ?r"
    by (simp add: parse_SimilarityBatchRequest_def str_field_ok_def)
  have q: "encode toy_env [query ?r] = Inr ([1, 0] # [])"
    by (simp add: toy_encode toy_embedding_def)
  have c: "encode toy_env (candidates ?r) = Inr ?cvs"
    by (simp add: toy_encode)
  have n: "length ?cvs = length (candidates ?r)"
    by simp
  have shape: "list_all (\<lambda>v. length v = length [1, 0::real]) ?cvs"
    by (simp add: toy_embedding_def)
  have a: "is_argsort_of (map (cosine [1, 0]) ?cvs) (argsort toy_env (map (cosine [1, 0]) ?cvs))"
    by (simp add: toy_argsort argsort_stable_is_argsort)
  have s: "py_slice_to (rev (argsort toy_env (map (cosine [1, 0]) ?cvs))) (top_k ?r) = [2, 0]"
    by (simp add: toy_argsort toy_embedding_def toy_cosines argsort_stable_def upt_conv_Cons)
  show ?thesis
    using ranking_order_reversed_argsort [OF p q c n shape a] s by auto
qed

text \<open>
  C1, as stated, fails: two equal candidates tie, the argsort leaves them in place, and
  the second one comes first in the results.
\<close>

theorem ranking_ties_ascending_counterexample:
  "argsort in_place_env [1, 1] = [0, 1]
   \<and> is_argsort_of [1, 1] [0, 1]
   \<and> post_similarity_batch in_place_env
       \<lparr>body_query = [98], body_candidates = [[98], [98]], body_top_k = Missing\<rparr>
     = Inr \<lparr>echo_query = [98],
            results = [\<lparr>item_text = [98], item_score = 1, item_index = 1\<rparr>,
                       \<lparr>item_text = [98], item_score = 1, item_index = 0\<rparr>]\<rparr>
   \<and> \<not> ties_by_index_ascending
         [\<lparr>item_text = [98], item_score = 1, item_index = 1\<rparr>,
          \<lparr>item_text = [98], item_score = 1, item_index = 0\<rparr>]"
proof -
  have "argsort in_place_env [1, 1] = [0, 1]"
    by (simp add: in_place_env_def upt_conv_Cons)
  moreover have "is_argsort_of [1, 1] [0, 1]"
    by (simp add: is_argsort_of_def)
  ultimately show ?thesis
    by (simp add: in_place_run_two_equal ties_by_index_ascending_def)
qed

text \<open>
  C9. An explicit \<^verbatim>\<open>null\<close> for \<^verbatim>\<open>top_k\<close> passes validation and reaches the handler as
  \<^verbatim>\<open>None\<close>; the slice \<^verbatim>\<open>[:None]\<close> keeps everything, so the results are as many as
  the candidates and name every candidate. With 101 candidates the results list is
  longer than 100, the largest integer \<^verbatim>\<open>top_k\<close> may be.
\<close>

theorem ranking_null_top_k:
  assumes p: "parse_SimilarityBatchRequest b = Inr r"
    and k: "body_top_k b = JsonNull"
    and q: "encode e [query r] = Inr (q # qs)"
    and c: "encode e (candidates r) = Inr cvs"
    and n: "length cvs = length (candidates r)"
    and shape: "list_all (\<lambda>v. length v = length q) cvs"
    and a: "is_argsort_of (map (cosine q) cvs) (argsort e (map (cosine q) cvs))"
  shows "top_k r = None
    \<and> (\<exists>rs. post_similarity_batch e b = Inr \<lparr>echo_query = query r, results = rs\<rparr>
          \<and> length rs = length (body_candidates b)
          \<and> set (map item_index rs) = {0..<length (body_candidates b)})"
proof -
  let ?sims = "map (cosine q) cvs"
  let ?mk = "\<lambda>i. \<lparr>item_text = candidates r ! i, item_score = ?sims ! i, item_index = i\<rparr>"
  have r: "top_k r = None" "candidates r = body_candidates b"
    using p k by (auto simp: parse_SimilarityBatchRequest_def split: if_splits)
  have 1: "post_similarity_batch e b
      = Inr \<lparr>echo_query = query r, results = map ?mk (rev (argsort e ?sims))\<rparr>"
    using find_similar_success [OF q c n shape a] by (simp add: post_similarity_batch_def p r)
  have 2: "length (map ?mk (rev (argsort e ?sims))) = length (body_candidates b)"
    using a n r by (simp add: is_argsort_of_def)
  have 3: "set (map item_index (map ?mk (rev (argsort e ?sims)))) = {0..<length (body_candidates b)}"
    using is_argsort_of_set [OF a] n r by (simp add: comp_def)
  from r 1 2 3 show ?thesis by blast
qed

theorem ranking_null_top_k_witness:
  "\<exists>rs. post_similarity_batch toy_env
       \<lparr>body_query = [98], body_candidates = replicate 101 [98], body_top_k = JsonNull\<rparr>
     = Inr \<lparr>echo_query = [98], results = rs\<rparr>
   \<and> length rs = 101 \<and> 100 < length rs"
proof -
  let ?b = "\<lparr>body_query = [98], body_candidates = replicate 101 [98], body_top_k = JsonNull\<rparr>"
  let ?r = "\<lparr>query = [98], candidates = replicate 101 [98], top_k = None\<rparr>"
  let ?cvs = "map toy_embedding (replicate 101 [98])"
  have p: "parse_SimilarityBatchRequest ?b = Inr ?r"
    by (simp add: parse_SimilarityBatchRequest_def str_field_ok_def)
  have k: "body_top_k ?b = JsonNull"
    by simp
  have q: "encode toy_env [query ?r] = Inr ([1, 0] # [])"
    by (simp add: toy_encode toy_embedding_def)
  have c: "encode toy_env (candidates ?r) = Inr ?cvs"
    by (simp add: toy_encode)
  have n: "length ?cvs = length (candidates ?r)"
    by simp
  have shape: "list_all (\<lambda>v. length v = length [1, 0::real]) ?cvs"
    by (simp add: list_all_iff toy_embedding_def)
  have a: "is_argsort_of (map (cosine [1, 0]) ?cvs) (argsort toy_env (map (cosine [1, 0]) ?cvs))"
    by (simp only: toy_argsort argsort_stable_is_argsort)
  show ?thesis
    using ranking_null_top_k [OF p k q c n shape a] by auto
qed

section \<open>Pairwise similarity\<close>

lemma dot_sum: "length a = length b \<Longrightarrow> dot a b = (\<Sum>i<length a. a ! i * b ! i)"
  by (simp add: dot_def sum_list_sum_nth atLeast0LessThan)

lemma dot_commute: "dot a b = dot b a"
proof -
  have "map2 (*) a b = map2 (*) b a"
    by (induction a b rule: list_induct2') (simp_all add: mult.commute)
  then show ?thesis by (simp add: dot_def)
qed

lemma cosine_commute: "cosine a b = cosine b a"
  by (auto simp: cosine_def dot_commute mult.commute)

lemma vnorm_sum: "vnorm a = sqrt (\<Sum>i<length a. (a ! i)\<^sup>2)"
  by (simp add: vnorm_def dot_sum power2_eq_square)

lemma vnorm_zero_iff: "vnorm a = 0 \<longleftrightarrow> (\<forall>x\<in>set a. x = 0)"
proof -
  have "dot a a = sum_list (map (\<lambda>x. x * x) a)"
    by (induction a) (auto simp: dot_def)
  moreover have "sum_list (map (\<lambda>x. x * x) a) = 0 \<longleftrightarrow> (\<forall>x\<in>set a. x = 0)"
    by (subst sum_list_nonneg_eq_0_iff) auto
  ultimately show ?thesis by (simp add: vnorm_def)
qed

lemma calculate_similarity_success:
  assumes "encode e [text1 r, text2 r] = Inr (a # b # rest)" "length a = length b"
  shows "calculate_similarity e r
     = Inr \<lparr>score = cosine a b, echo_text1 = text1 r, echo_text2 = text2 r\<rparr>"
  using assms by (simp add: calculate_similarity_def cosine_similarity_def)

text \<open>
  C3. On a model that returns the two embeddings \<open>a\<close> and \<open>b\<close> for the two texts,
  \<^verbatim>\<open>/similarity\<close> answers with the score \<open>dot(a,b)/(|a||b|)\<close>, with the score 0
  when either norm is zero (that is, when either vector is all zeros), and echoes
  \<^verbatim>\<open>text1\<close> and \<^verbatim>\<open>text2\<close> unchanged.
\<close>

theorem similarity_is_cosine:
  assumes v: "validate_SimilarityRequest r"
    and enc: "encode e [text1 r, text2 r] = Inr [a, b]"
    and len: "length a = length b"
  shows "\<exists>s. post_similarity e r = Inr \<lparr>score = s, echo_text1 = text1 r, echo_text2 = text2 r\<rparr>
    \<and> (if sqrt (\<Sum>i<length a. (a ! i)\<^sup>2) = 0 \<or> sqrt (\<Sum>i<length b. (b ! i)\<^sup>2) = 0
        then s = 0
        else s = (\<Sum>i<length a. a ! i * b ! i)
                 / (sqrt (\<Sum>i<length a. (a ! i)\<^sup>2) * sqrt (\<Sum>i<length b. (b ! i)\<^sup>2)))
    \<and> ((\<forall>x\<in>set a. x = 0) \<or> (\<forall>x\<in>set b. x = 0) \<longrightarrow> s = 0)"
proof -
  have 1: "post_similarity e r
      = Inr \<lparr>score = cosine a b, echo_text1 = text1 r, echo_text2 = text2 r\<rparr>"
    using calculate_similarity_success [OF enc len] v by (simp add: post_similarity_def)
  have 2: "if sqrt (\<Sum>i<length a. (a ! i)\<^sup>2) = 0 \<or> sqrt (\<Sum>i<length b. (b ! i)\<^sup>2) = 0
        then cosine a b = 0
        else cosine a b = (\<Sum>i<length a. a ! i * b ! i)
                 / (sqrt (\<Sum>i<length a. (a ! i)\<^sup>2) * sqrt (\<Sum>i<length b. (b ! i)\<^sup>2))"
    unfolding cosine_def vnorm_sum [symmetric] dot_sum [OF len, symmetric] by simp
  have 3: "(\<forall>x\<in>set a. x = 0) \<or> (\<forall>x\<in>set b. x = 0) \<longrightarrow> cosine a b = 0"
    unfolding vnorm_zero_iff [symmetric] by (simp add: cosine_def)
  from 1 2 3 show ?thesis by blast
qed

theorem similarity_is_cosine_witness:
  "\<exists>s. post_similarity toy_env \<lparr>text1 = [98], text2 = [0, 7]\<rparr>
      = Inr \<lparr>score = s, echo_text1 = [98], echo_text2 = [0, 7]\<rparr> \<and> s = 0"
proof -
  let ?r = "\<lparr>text1 = [98], text2 = [0, 7]\<rparr>"
  have v: "validate_SimilarityRequest ?r"
    by (simp add: validate_SimilarityRequest_def str_field_ok_def)
  have enc: "encode toy_env [text1 ?r, text2 ?r] = Inr [[1, 0], [0, 0]]"
    by (simp add: toy_encode toy_embedding_def)
  have len: "length [1, 0::real] = length [0, 0::real]"
    by simp
  show ?thesis
    using similarity_is_cosine [OF v enc len] by auto
qed

text \<open>
  C4. On a model that embeds each of the two texts the same way whichever comes first
  in the batch, the score of \<open>(t1, t2)\<close> is the score of \<open>(t2, t1)\<close>.
\<close>

theorem similarity_symmetric:
  assumes v: "validate_SimilarityRequest \<lparr>text1 = t1, text2 = t2\<rparr>"
    and e12: "encode e [t1, t2] = Inr [a, b]"
    and e21: "encode e [t2, t1] = Inr [b, a]"
    and len: "length a = length b"
  shows "\<exists>s. post_similarity e \<lparr>text1 = t1, text2 = t2\<rparr>
                = Inr \<lparr>score = s, echo_text1 = t1, echo_text2 = t2\<rparr>
            \<and> post_similarity e \<lparr>text1 = t2, text2 = t1\<rparr>
                = Inr \<lparr>score = s, echo_text1 = t2, echo_text2 = t1\<rparr>"
proof -
  have v': "validate_SimilarityRequest \<lparr>text1 = t2, text2 = t1\<rparr>"
    using v by (simp add: validate_SimilarityRequest_def)
  have "post_similarity e \<lparr>text1 = t1, text2 = t2\<rparr>
      = Inr \<lparr>score = cosine a b, echo_text1 = t1, echo_text2 = t2\<rparr>"
    using calculate_similarity_success [of e "\<lparr>text1 = t1, text2 = t2\<rparr>" a b "[]"] e12 len v
    by (simp add: post_similarity_def)
  moreover have "post_similarity e \<lparr>text1 = t2, text2 = t1\<rparr>
      = Inr \<lparr>score = cosine b a, echo_text1 = t2, echo_text2 = t1\<rparr>"
    using calculate_similarity_success [of e "\<lparr>text1 = t2, text2 = t1\<rparr>" b a "[]"] e21 len v'
    by (simp add: post_similarity_def)
  ultimately show ?thesis
    by (simp add: cosine_commute)
qed

theorem similarity_symmetric_witness:
  "\<exists>s. post_similarity toy_env \<lparr>text1 = [98], text2 = [97]\<rparr>
                = Inr \<lparr>score = s, echo_text1 = [98], echo_text2 = [97]\<rparr>
            \<and> post_similarity toy_env \<lparr>text1 = [97], text2 = [98]\<rparr>
                = Inr \<lparr>score = s, echo_text1 = [97], echo_text2 = [98]\<rparr>"
proof -
  have v: "validate_SimilarityRequest \<lparr>text1 = [98], text2 = [97]\<rparr>"
    by (simp add: validate_SimilarityRequest_def str_field_ok_def)
  have e12: "encode toy_env [[98], [97]] = Inr [[1, 0], [0, 1]]"
    by (simp add: toy_encode toy_embedding_def)
  have e21: "encode toy_env [[97], [98]] = Inr [[0, 1], [1, 0]]"
    by (simp add: toy_encode toy_embedding_def)
  have len: "length [1, 0::real] = length [0, 1::real]"
    by simp
  show ?thesis
    using similarity_symmetric [OF v e12 e21 len] by simp
qed

section \<open>Embedding\<close>

text \<open>
  C6. On a model whose vectors have the length it reports as its dimension, the
  \<^verbatim>\<open>dimensions\<close> field of a successful \<^verbatim>\<open>/embed\<close> response is that dimension, the
  value \<^verbatim>\<open>/health\<close> reports, and the length of the returned vector.
\<close>

theorem embed_dimensions:
  assumes ok: "post_embed e r = Inr resp"
    and wf: "\<forall>v. encode_str e (req_text r) = Inr v \<longrightarrow> length v = get_sentence_embedding_dimension e"
  shows "validate_EmbedRequest r
    \<and> dimensions resp = get_sentence_embedding_dimension e
    \<and> dimensions resp = model_dimensions (health_check e)
    \<and> dimensions resp = length (vector resp)"
  using ok wf
  by (auto simp: post_embed_def embed_text_def health_check_def split: if_splits sum.splits)

theorem embed_dimensions_witness:
  "validate_EmbedRequest \<lparr>req_text = [98, 105]\<rparr>
   \<and> dimensions \<lparr>vector = [1, 0], dimensions = 2, model = ''all-MiniLM-L6-v2''\<rparr>
       = get_sentence_embedding_dimension toy_env
   \<and> model_dimensions (health_check toy_env) = 2"
proof -
  have ok: "post_embed toy_env \<lparr>req_text = [98, 105]\<rparr>
      = Inr \<lparr>vector = [1, 0], dimensions = 2, model = ''all-MiniLM-L6-v2''\<rparr>"
    by (simp add: post_embed_def validate_EmbedRequest_def str_field_ok_def embed_text_def
        toy_env_def toy_embedding_def)
  have wf: "\<forall>v. encode_str toy_env (req_text \<lparr>req_text = [98, 105]\<rparr>) = Inr v
      \<longrightarrow> length v = get_sentence_embedding_dimension toy_env"
    by (auto simp: toy_env_def toy_embedding_def)
  show ?thesis
    using embed_dimensions [OF ok wf] by simp
qed

text \<open>
  C8. For a batch of 1 to 100 texts on a model that returns the embedding of the
  \<open>i\<close>-th text as its \<open>i\<close>-th row, the response holds one vector per text in the
  order of the texts, \<^verbatim>\<open>count\<close> is the number of vectors and \<^verbatim>\<open>dimensions\<close> the
  length of the first. The vector list is not empty then; were it empty, the handler
  would answer with \<^verbatim>\<open>dimensions\<close> 0.
\<close>

theorem embed_batch_rows:
  assumes lo: "1 \<le> length ts" and hi: "length ts \<le> 100"
    and enc: "encode e ts = Inr (map emb ts)"
  shows "\<exists>resp. post_embed_batch e \<lparr>texts = ts\<rparr> = Inr resp
      \<and> length (vectors resp) = length ts
      \<and> (\<forall>i<length ts. vectors resp ! i = emb (ts ! i))
      \<and> count resp = length (vectors resp)
      \<and> vectors resp \<noteq> []
      \<and> batch_dimensions resp = length (emb (ts ! 0))
      \<and> (\<forall>e' r'. encode e' (texts r') = Inr [] \<longrightarrow>
            embed_batch e' r' = Inr \<lparr>vectors = [], count = 0, batch_dimensions = 0,
                                     batch_model = MODEL_NAME e'\<rparr>)"
proof -
  obtain t ts' where ts: "ts = t # ts'"
    using lo by (cases ts) auto
  let ?resp = "\<lparr>vectors = map emb ts, count = length ts,
      batch_dimensions = length (emb t), batch_model = MODEL_NAME e\<rparr>"
  have "post_embed_batch e \<lparr>texts = ts\<rparr> = Inr ?resp"
    using lo hi enc
    by (simp add: post_embed_batch_def validate_EmbedBatchRequest_def embed_batch_def ts)
  moreover have "\<forall>e' r'. encode e' (texts r') = Inr [] \<longrightarrow>
      embed_batch e' r' = Inr \<lparr>vectors = [], count = 0, batch_dimensions = 0,
                               batch_model = MODEL_NAME e'\<rparr>"
    by (simp add: embed_batch_def)
  moreover have "\<forall>i<length ts. map emb ts ! i = emb (ts ! i)"
    by simp
  moreover have "map emb ts \<noteq> []" "length (emb t) = length (emb (ts ! 0))"
    by (simp_all add: ts)
  ultimately show ?thesis
    by (intro exI [of _ ?resp]) simp
qed

theorem embed_batch_rows_witness:
  "post_embed_batch toy_env \<lparr>texts = [[97], [98], [0]]\<rparr>
     = Inr \<lparr>vectors = [[0, 1], [1, 0], [0, 0]], count = 3, batch_dimensions = 2,
            batch_model = ''all-MiniLM-L6-v2''\<rparr>
   \<and> embed_batch silent_env \<lparr>texts = [[97]]\<rparr>
     = Inr \<lparr>vectors = [], count = 0, batch_dimensions = 0,
            batch_model = ''all-MiniLM-L6-v2''\<rparr>"
proof -
  have lo: "1 \<le> length [[97], [98], [0::nat]]" and hi: "length [[97], [98], [0::nat]] \<le> 100"
    by simp_all
  have enc: "encode toy_env [[97], [98], [0]] = Inr (map toy_embedding [[97], [98], [0]])"
    by (simp add: toy_encode)
  have s: "encode silent_env (texts \<lparr>texts = [[97]]\<rparr>) = Inr []"
    by (simp add: silent_env_def)
  have m: "MODEL_NAME silent_env = ''all-MiniLM-L6-v2''" "MODEL_NAME toy_env = ''all-MiniLM-L6-v2''"
    by (simp_all add: silent_env_def toy_env_def)
  from embed_batch_rows [OF lo hi enc]
  obtain resp where r: "post_embed_batch toy_env \<lparr>texts = [[97], [98], [0]]\<rparr> = Inr resp"
    and z: "\<forall>e' r'. encode e' (texts r') = Inr [] \<longrightarrow>
            embed_batch e' r' = Inr \<lparr>vectors = [], count = 0, batch_dimensions = 0,
                                     batch_model = MODEL_NAME e'\<rparr>"
    by blast
  have "post_embed_batch toy_env \<lparr>texts = [[97], [98], [0]]\<rparr>
     = Inr \<lparr>vectors = [[0, 1], [1, 0], [0, 0]], count = 3, batch_dimensions = 2,
            batch_model = ''all-MiniLM-L6-v2''\<rparr>"
    by (simp add: post_embed_batch_def validate_EmbedBatchRequest_def embed_batch_def
        toy_env_def toy_embedding_def)
  moreover have "embed_batch silent_env \<lparr>texts = [[97]]\<rparr>
     = Inr \<lparr>vectors = [], count = 0, batch_dimensions = 0,
            batch_model = ''all-MiniLM-L6-v2''\<rparr>"
    using z s m by simp
  ultimately show ?thesis by simp
qed

text \<open>
  C5. Both handlers return the model's output unchanged. For a valid text on which the
  model's answer to the one-element list is within \<open>eps\<close> of its answer to the
  single text, component by component, both endpoints succeed and the one vector of
  \<^verbatim>\<open>/embed/batch\<close> is within \<open>eps\<close> of the vector of \<^verbatim>\<open>/embed\<close>.
\<close>

theorem embed_batch_agrees_with_single:
  assumes t: "str_field_ok t"
    and s: "encode_str e t = Inr v"
    and b: "encode e [t] = Inr [w]"
    and len: "length w = length v"
    and close: "\<forall>i<length v. \<bar>w ! i - v ! i\<bar> \<le> eps"
  shows "\<exists>r1 r2. post_embed e \<lparr>req_text = t\<rparr> = Inr r1
      \<and> post_embed_batch e \<lparr>texts = [t]\<rparr> = Inr r2
      \<and> vector r1 = v \<and> vectors r2 = [w]
      \<and> length (vectors r2 ! 0) = length (vector r1)
      \<and> (\<forall>i<length (vector r1). \<bar>vectors r2 ! 0 ! i - vector r1 ! i\<bar> \<le> eps)"
proof -
  let ?r1 = "\<lparr>vector = v, dimensions = length v, model = MODEL_NAME e\<rparr>"
  let ?r2 = "\<lparr>vectors = [w], count = 1, batch_dimensions = length w, batch_model = MODEL_NAME e\<rparr>"
  have 1: "post_embed e \<lparr>req_text = t\<rparr> = Inr ?r1"
    using t s by (simp add: post_embed_def validate_EmbedRequest_def embed_text_def)
  have 2: "post_embed_batch e \<lparr>texts = [t]\<rparr> = Inr ?r2"
    using b by (simp add: post_embed_batch_def validate_EmbedBatchRequest_def embed_batch_def)
  show ?thesis
    using 1 2 len close by (intro exI [of _ ?r1] exI [of _ ?r2]) simp
qed

theorem embed_batch_agrees_with_single_witness:
  "post_embed toy_env \<lparr>req_text = [98]\<rparr>
     = Inr \<lparr>vector = [1, 0], dimensions = 2, model = ''all-MiniLM-L6-v2''\<rparr>
   \<and> post_embed_batch toy_env \<lparr>texts = [[98]]\<rparr>
     = Inr \<lparr>vectors = [[1, 0]], count = 1, batch_dimensions = 2,
            batch_model = ''all-MiniLM-L6-v2''\<rparr>"
proof -
  have t: "str_field_ok [98]"
    by (simp add: str_field_ok_def)
  have s: "encode_str toy_env [98] = Inr [1, 0]"
    by (simp add: toy_env_def toy_embedding_def)
  have b: "encode toy_env [[98]] = Inr [[1, 0]]"
    by (simp add: toy_encode toy_embedding_def)
  have len: "length [1, 0::real] = length [1, 0::real]"
    by simp
  have close: "\<forall>i<length [1, 0::real]. \<bar>[1, 0::real] ! i - [1, 0] ! i\<bar> \<le> 0"
    by simp
  from embed_batch_agrees_with_single [OF t s b len close]
  obtain r1 r2 where "post_embed toy_env \<lparr>req_text = [98]\<rparr> = Inr r1"
    "post_embed_batch toy_env \<lparr>texts = [[98]]\<rparr> = Inr r2" "vector r1 = [1, 0]"
    "vectors r2 = [[1, 0]]"
    by blast
  moreover have "post_embed toy_env \<lparr>req_text = [98]\<rparr>
     = Inr \<lparr>vector = [1, 0], dimensions = 2, model = ''all-MiniLM-L6-v2''\<rparr>"
    by (simp add: post_embed_def validate_EmbedRequest_def str_field_ok_def embed_text_def
        toy_env_def toy_embedding_def)
  moreover have "post_embed_batch toy_env \<lparr>texts = [[98]]\<rparr>
     = Inr \<lparr>vectors = [[1, 0]], count = 1, batch_dimensions = 2,
            batch_model = ''all-MiniLM-L6-v2''\<rparr>"
    by (simp add: post_embed_batch_def validate_EmbedBatchRequest_def embed_batch_def
        toy_env_def toy_embedding_def)
  ultimately show ?thesis by simp
qed

section \<open>Items of the list fields\<close>

lemma find_similar_not_422: "find_similar e r \<noteq> Inl HTTP422"
  by (simp add: find_similar_def Let_def split: sum.split list.split)

lemma replicate_10001: "replicate 10001 x = x # replicate 10000 x"
proof -
  have "replicate (Suc 10000) x = x # replicate 10000 x" by (rule replicate_Suc)
  then show ?thesis by simp
qed

text \<open>
  C10. The items of \<^verbatim>\<open>texts\<close> and of \<^verbatim>\<open>candidates\<close> are not validated: whatever the
  items are, a list of 1 to 100 texts reaches \<^verbatim>\<open>embed_batch\<close> and a list of 1 to 1000
  candidates reaches \<^verbatim>\<open>find_similar\<close>, whose answers are the model's on those very
  lists, and never the validation error. The single text of \<^verbatim>\<open>/embed\<close> is rejected
  when it is empty or has 10001 characters.
\<close>

theorem batch_items_unvalidated:
  assumes lo: "1 \<le> length ts" and hi: "length ts \<le> 100"
    and q: "str_field_ok q" and clo: "1 \<le> length cs" and chi: "length cs \<le> 1000"
  shows "post_embed_batch e \<lparr>texts = ts\<rparr> = embed_batch e \<lparr>texts = ts\<rparr>
    \<and> post_embed_batch e \<lparr>texts = ts\<rparr> \<noteq> Inl HTTP422
    \<and> (\<forall>vs. encode e ts = Inr vs \<longrightarrow>
          (\<exists>resp. post_embed_batch e \<lparr>texts = ts\<rparr> = Inr resp \<and> vectors resp = vs))
    \<and> post_similarity_batch e \<lparr>body_query = q, body_candidates = cs, body_top_k = Missing\<rparr>
        = find_similar e \<lparr>query = q, candidates = cs, top_k = Some 10\<rparr>
    \<and> post_similarity_batch e \<lparr>body_query = q, body_candidates = cs, body_top_k = Missing\<rparr>
        \<noteq> Inl HTTP422
    \<and> (\<forall>x qv qs. encode e [q] = Inr (qv # qs) \<and> encode e cs = Inl x \<longrightarrow>
          post_similarity_batch e \<lparr>body_query = q, body_candidates = cs, body_top_k = Missing\<rparr>
            = Inl (HTTP500 x))
    \<and> post_embed e \<lparr>req_text = []\<rparr> = Inl HTTP422
    \<and> post_embed e \<lparr>req_text = replicate 10001 c\<rparr> = Inl HTTP422"
proof -
  have 1: "post_embed_batch e \<lparr>texts = ts\<rparr> = embed_batch e \<lparr>texts = ts\<rparr>"
    using lo hi by (simp add: post_embed_batch_def validate_EmbedBatchRequest_def)
  have 2: "embed_batch e \<lparr>texts = ts\<rparr> \<noteq> Inl HTTP422"
    by (simp add: embed_batch_def split: sum.split)
  have 3: "\<forall>vs. encode e ts = Inr vs \<longrightarrow>
          (\<exists>resp. embed_batch e \<lparr>texts = ts\<rparr> = Inr resp \<and> vectors resp = vs)"
    by (simp add: embed_batch_def)
  have 4: "post_similarity_batch e \<lparr>body_query = q, body_candidates = cs, body_top_k = Missing\<rparr>
        = find_similar e \<lparr>query = q, candidates = cs, top_k = Some 10\<rparr>"
    using q clo chi by (simp add: post_similarity_batch_def parse_SimilarityBatchRequest_def)
  have 5: "\<forall>x qv qs. encode e [q] = Inr (qv # qs) \<and> encode e cs = Inl x \<longrightarrow>
      find_similar e \<lparr>query = q, candidates = cs, top_k = Some 10\<rparr> = Inl (HTTP500 x)"
    by (simp add: find_similar_def)
  have 6: "post_embed e \<lparr>req_text = []\<rparr> = Inl HTTP422"
    "post_embed e \<lparr>req_text = replicate 10001 c\<rparr> = Inl HTTP422"
    by (simp_all add: post_embed_def validate_EmbedRequest_def str_field_ok_def)
  from 1 2 3 4 5 6 find_similar_not_422 [of e "\<lparr>query = q, candidates = cs, top_k = Some 10\<rparr>"]
  show ?thesis by simp
qed

theorem batch_items_unvalidated_witness:
  "post_embed_batch toy_env \<lparr>texts = [[], replicate 10001 7]\<rparr>
     = Inr \<lparr>vectors = [[0, 0], [0, 1]], count = 2, batch_dimensions = 2,
            batch_model = ''all-MiniLM-L6-v2''\<rparr>
   \<and> post_similarity_batch toy_env
        \<lparr>body_query = [98], body_candidates = [[], replicate 10001 7], body_top_k = Missing\<rparr>
      = find_similar toy_env \<lparr>query = [98], candidates = [[], replicate 10001 7], top_k = Some 10\<rparr>
   \<and> post_embed toy_env \<lparr>req_text = []\<rparr> = Inl HTTP422
   \<and> post_embed toy_env \<lparr>req_text = replicate 10001 7\<rparr> = Inl HTTP422"
proof -
  have lo: "1 \<le> length [[], replicate 10001 (7::nat)]"
    and hi: "length [[], replicate 10001 (7::nat)] \<le> 100"
    and clo: "1 \<le> length [[], replicate 10001 (7::nat)]"
    and chi: "length [[], replicate 10001 (7::nat)] \<le> 1000"
    by simp_all
  have q: "str_field_ok [98]"
    by (simp add: str_field_ok_def)
  have run: "embed_batch toy_env \<lparr>texts = [[], replicate 10001 7]\<rparr>
     = Inr \<lparr>vectors = [[0, 0], [0, 1]], count = 2, batch_dimensions = 2,
            batch_model = ''all-MiniLM-L6-v2''\<rparr>"
    by (simp add: embed_batch_def toy_env_def toy_embedding_def replicate_10001)
  show ?thesis
    using batch_items_unvalidated [OF lo hi q clo chi, of toy_env 7] run by simp
qed

end
